theory Spec2Isabelle
  imports Main
begin

section \<open>Values thrown by the program\<close>

text \<open>
  The program signals every failure with a JavaScript \<^verbatim>\<open>throw\<close>. The thrown values that
  occur in the source are: an \<^verbatim>\<open>Error\<close> built with \<^verbatim>\<open>new Error(message)\<close>, the
  \<^verbatim>\<open>TypeError\<close> the runtime raises when a property of \<^verbatim>\<open>null\<close> is read, the error
  object of a database query (a \<^verbatim>\<open>PostgrestError\<close> with its four string fields), and
  the value \<^verbatim>\<open>null\<close> itself, which \<^verbatim>\<open>throw error\<close> throws when \<^verbatim>\<open>error\<close> is null.
\<close>

record PostgrestError =
  message :: string
  details :: string
  hint :: string
  code :: string

datatype js_thrown =
    JsError string
  | JsTypeError string
  | JsPostgrestError PostgrestError
  | JsNull

text \<open>
  What a function does besides returning: a dynamic \<^verbatim>\<open>import(specifier)\<close>, a constructor
  call \<^verbatim>\<open>new C()\<close> and a call of an imported function with its arguments. A function
  that has effects returns its result together with the list of its effects, in order.
\<close>

datatype effect =
    Import string
  | New string
  | Call string "string list"

section \<open>The webhook handler interface\<close>

text \<open>
  \<^verbatim>\<open>billing-webhook-handler.service.ts\<close>: the parameter object of
  \<^verbatim>\<open>handleWebhookEvent\<close> holds five asynchronous handlers. A handler runs against the
  caller's persistence (the state \<open>'w\<close>) and its promise either resolves or rejects with a
  value of type \<open>'e\<close>. \<open>'u\<close> stands for the database argument types
  \<^verbatim>\<open>UpsertSubscriptionParams | UpsertOrderParams\<close>, which are declared outside the source.
\<close>

record ('u, 'e, 'w) callback_set =
  onCheckoutSessionCompleted :: "'u \<Rightarrow> string \<Rightarrow> 'w \<Rightarrow> ('e + unit) \<times> 'w"
  onSubscriptionUpdated :: "'u \<Rightarrow> string \<Rightarrow> 'w \<Rightarrow> ('e + unit) \<times> 'w"
  onSubscriptionDeleted :: "string \<Rightarrow> 'w \<Rightarrow> ('e + unit) \<times> 'w"
  onPaymentSucceeded :: "string \<Rightarrow> 'w \<Rightarrow> ('e + unit) \<times> 'w"
  onPaymentFailed :: "string \<Rightarrow> 'w \<Rightarrow> ('e + unit) \<times> 'w"

text \<open>
  The abstract class \<^verbatim>\<open>BillingWebhookHandlerService\<close> declares two methods and
  implements neither: an instance is a pair of a verifier (from the request \<open>'req\<close> to the
  verified event \<open>'p\<close>, or a thrown value) and an event handler.
\<close>

record ('req, 'p, 'u, 'e, 'w) BillingWebhookHandlerService =
  verifyWebhookSignature :: "'req \<Rightarrow> 'e + 'p"
  handleWebhookEvent :: "'p \<Rightarrow> ('u, 'e, 'w) callback_set \<Rightarrow> 'w \<Rightarrow> ('e + unit) \<times> 'w"

section \<open>The provider strategy factory\<close>

text \<open>
  \<^verbatim>\<open>BillingEventHandlerFactoryService.GetProviderStrategy\<close> is a \<^verbatim>\<open>switch\<close> on the
  provider string with four branches, in this order: \<^verbatim>\<open>'stripe'\<close>, \<^verbatim>\<open>'lemon-squeezy'\<close>,
  \<^verbatim>\<open>'paddle'\<close> and \<^verbatim>\<open>default\<close>. The two classes it instantiates live in the packages
  \<^verbatim>\<open>@kit/stripe\<close> and \<^verbatim>\<open>@kit/lemon-squeezy\<close>, outside the source; the instances their
  parameterless constructors build are the first two arguments of the model. The declared
  parameter type is the provider enumeration, but the \<^verbatim>\<open>default\<close> branch is written for
  any string that reaches the function at run time, so the provider is a \<open>string\<close>.
\<close>

definition GetProviderStrategy ::
  "'h \<Rightarrow> 'h \<Rightarrow> string \<Rightarrow> (js_thrown + 'h) \<times> effect list"
where
  "GetProviderStrategy StripeWebhookHandlerService LemonSqueezyWebhookHandlerService provider =
     (if provider = ''stripe'' then
        (Inr StripeWebhookHandlerService,
         [Import ''@kit/stripe'', New ''StripeWebhookHandlerService''])
      else if provider = ''lemon-squeezy'' then
        (Inr LemonSqueezyWebhookHandlerService,
         [Import ''@kit/lemon-squeezy'', New ''LemonSqueezyWebhookHandlerService''])
      else if provider = ''paddle'' then
        (Inl (JsError ''Paddle is not supported yet''), [])
      else
        (Inl (JsError (''Unsupported billing provider: '' @ provider)), []))"

section \<open>The configured billing provider\<close>

text \<open>
  \<^verbatim>\<open>getBillingProvider\<close> awaits
  \<^verbatim>\<open>client.from('config').select('billing_provider').single()\<close> and destructures the
  response into \<^verbatim>\<open>data\<close> and \<^verbatim>\<open>error\<close>, each of which may be null. The response is
  the model's input. The column value is a string or null.
\<close>

record config_row =
  billing_provider :: "string option"

record single_response =
  data :: "config_row option"
  error :: "PostgrestError option"

text \<open>JavaScript's \<^verbatim>\<open>!v\<close> for a value that is a string or null: true for null and for the empty string.\<close>

definition js_not :: "string option \<Rightarrow> bool" where
  "js_not v = (case v of None \<Rightarrow> True | Some s \<Rightarrow> s = [])"

text \<open>The value \<^verbatim>\<open>throw error\<close> throws, for the \<^verbatim>\<open>error\<close> field of a response.\<close>

definition thrown_error :: "PostgrestError option \<Rightarrow> js_thrown" where
  "thrown_error err = (case err of None \<Rightarrow> JsNull | Some q \<Rightarrow> JsPostgrestError q)"

text \<open>
  \<^verbatim>\<open>if (error ?? !data.billing_provider) { throw error; } return data.billing_provider;\<close>
  The operator \<^verbatim>\<open>??\<close> yields its left operand unless that is null; a non-null error is an
  object and so truthy. When \<^verbatim>\<open>error\<close> is null the right operand is evaluated, and reading
  \<^verbatim>\<open>billing_provider\<close> of a null \<^verbatim>\<open>data\<close> raises a \<^verbatim>\<open>TypeError\<close>.
\<close>

definition getBillingProvider :: "single_response \<Rightarrow> js_thrown + string" where
  "getBillingProvider response =
     (case error response of
        Some q \<Rightarrow> Inl (thrown_error (error response))
      | None \<Rightarrow>
          (case data response of
             None \<Rightarrow>
               Inl (JsTypeError ''Cannot read properties of null (reading 'billing_provider')'')
           | Some row \<Rightarrow>
               if js_not (billing_provider row) then Inl (thrown_error (error response))
               else (case billing_provider row of
                       Some provider \<Rightarrow> Inr provider
                     | None \<Rightarrow> Inl (thrown_error (error response)))))"

text \<open>
  \<^verbatim>\<open>getBillingGatewayProvider\<close>: \<^verbatim>\<open>const provider = await getBillingProvider(client);
  return createBillingGatewayService(provider);\<close>. The factory
  \<^verbatim>\<open>createBillingGatewayService\<close> is imported from outside the source and is the model's
  first argument; each call of it is recorded as an effect.
\<close>

definition getBillingGatewayProvider ::
  "(string \<Rightarrow> 'g) \<Rightarrow> single_response \<Rightarrow> (js_thrown + 'g) \<times> effect list"
where
  "getBillingGatewayProvider createBillingGatewayService response =
     (case getBillingProvider response of
        Inl e \<Rightarrow> (Inl e, [])
      | Inr provider \<Rightarrow>
          (Inr (createBillingGatewayService provider),
           [Call ''createBillingGatewayService'' [provider]]))"

section \<open>The database webhook verifier\<close>

text \<open>
  \<^verbatim>\<open>const WEBHOOK_SENDER_PROVIDER = process.env.WEBHOOK_SENDER_PROVIDER ?? 'postgres';\<close>
  An environment variable is a string when set and \<^verbatim>\<open>undefined\<close> when unset.
\<close>

definition WEBHOOK_SENDER_PROVIDER :: "string option \<Rightarrow> string" where
  "WEBHOOK_SENDER_PROVIDER env = (case env of None \<Rightarrow> ''postgres'' | Some v \<Rightarrow> v)"

text \<open>
  \<^verbatim>\<open>getDatabaseWebhookVerifier\<close> switches on that constant. The class
  \<^verbatim>\<open>PostgresDatabaseWebhookVerifierService\<close> is in a sibling module outside the source;
  the instance its constructor builds is the model's first argument.
\<close>

definition getDatabaseWebhookVerifier ::
  "'v \<Rightarrow> string option \<Rightarrow> (js_thrown + 'v) \<times> effect list"
where
  "getDatabaseWebhookVerifier PostgresDatabaseWebhookVerifierService env =
     (if WEBHOOK_SENDER_PROVIDER env = ''postgres'' then
        (Inr PostgresDatabaseWebhookVerifierService,
         [Import ''./postgres-database-webhook-verifier.service'',
          New ''PostgresDatabaseWebhookVerifierService''])
      else
        (Inl (JsError (''Invalid WEBHOOK_SENDER_PROVIDER: '' @ WEBHOOK_SENDER_PROVIDER env)), []))"

section \<open>The webhook dispatcher\<close>

text \<open>
  The source declares \<open>verifyWebhookSignature\<close> and \<open>handleWebhookEvent\<close> as abstract
  methods. Their implementations (the Stripe and Lemon Squeezy handler services of the
  packages \<^verbatim>\<open>@kit/stripe\<close> and \<^verbatim>\<open>@kit/lemon-squeezy\<close>) and the service that calls one
  after the other are not part of the source. The definitions of this section follow the
  specification of the dispatcher instead.
\<close>

text \<open>
  Modelled from the spec: the Canonical Billing Event (data model), which the missing
  handler implementations build from a verified payload. It is a closed set of five
  variants: CheckoutCompleted{subscriptionOrOrder, customerId},
  SubscriptionUpdated{subscription, customerId}, SubscriptionDeleted{subscriptionId},
  PaymentSucceeded{sessionId} and PaymentFailed{sessionId}.
\<close>

datatype 'u canonical_billing_event =
    CheckoutCompleted 'u string
  | SubscriptionUpdated 'u string
  | SubscriptionDeleted string
  | PaymentSucceeded string
  | PaymentFailed string

text \<open>
  Modelled from the spec: the states of the dispatcher's per-request state machine, which
  the missing dispatcher service goes through:
  Received, Verifying, then Rejected or Verified, Normalizing, Dispatching, then Completed
  or CallbackFailed.
\<close>

datatype dispatcher_state =
    Received
  | Verifying
  | Rejected
  | Verified
  | Normalizing
  | Dispatching
  | Completed
  | CallbackFailed

text \<open>
  Modelled from the spec: one invocation of a handler of the Callback Set by the missing
  handler implementations, with the arguments the callback interface gives each handler.
\<close>

datatype 'u callback_call =
    OnCheckoutSessionCompleted 'u string
  | OnSubscriptionUpdated 'u string
  | OnSubscriptionDeleted string
  | OnPaymentSucceeded string
  | OnPaymentFailed string

text \<open>
  Modelled from the spec: what one run of the missing dispatcher leaves behind. The
  settled value of the returned promise, the caller's persistence after the run, the
  states the run went through and the callback invocations it made, both in order.
\<close>

record ('u, 'e, 'w) dispatch_run =
  result :: "'e + unit"
  world :: 'w
  visited :: "dispatcher_state list"
  invoked :: "'u callback_call list"

text \<open>
  Modelled from the spec: the missing handler implementations select the single matching
  callback from the Callback Set for an event. \<open>call_of\<close> names the invocation that
  an event of each variant leads to, with the event's typed fields as arguments.
\<close>

fun call_of :: "'u canonical_billing_event \<Rightarrow> 'u callback_call" where
  "call_of (CheckoutCompleted subscriptionOrOrder customerId) =
     OnCheckoutSessionCompleted subscriptionOrOrder customerId"
| "call_of (SubscriptionUpdated subscription customerId) =
     OnSubscriptionUpdated subscription customerId"
| "call_of (SubscriptionDeleted subscriptionId) = OnSubscriptionDeleted subscriptionId"
| "call_of (PaymentSucceeded sessionId) = OnPaymentSucceeded sessionId"
| "call_of (PaymentFailed sessionId) = OnPaymentFailed sessionId"

text \<open>
  Modelled from the spec: the missing handler implementations invoke the single matching
  callback from the Callback Set with the event's typed fields. \<open>invoke\<close> runs that
  callback against the caller's persistence.
\<close>

fun invoke ::
  "('u, 'e, 'w) callback_set \<Rightarrow> 'u canonical_billing_event \<Rightarrow> 'w \<Rightarrow> ('e + unit) \<times> 'w"
where
  "invoke callbacks (CheckoutCompleted subscriptionOrOrder customerId) =
     onCheckoutSessionCompleted callbacks subscriptionOrOrder customerId"
| "invoke callbacks (SubscriptionUpdated subscription customerId) =
     onSubscriptionUpdated callbacks subscription customerId"
| "invoke callbacks (SubscriptionDeleted subscriptionId) =
     onSubscriptionDeleted callbacks subscriptionId"
| "invoke callbacks (PaymentSucceeded sessionId) = onPaymentSucceeded callbacks sessionId"
| "invoke callbacks (PaymentFailed sessionId) = onPaymentFailed callbacks sessionId"

text \<open>
  Modelled from the spec: the contract \<^verbatim>\<open>handle(verifiedPayload, callbacks)\<close> of the event
  normalizer and dispatcher, which stands for the missing implementations of
  \<open>handleWebhookEvent\<close>. It classifies the verified payload into one Canonical Billing
  Event by the provider's own event-type discrimination (the argument \<open>classify\<close>, which
  yields \<open>None\<close> for an unrecognized event type), invokes the single matching callback
  and awaits it, so that the callback's rejection is the rejection of the returned
  promise. An unrecognized event type is ignored and is not an error.
\<close>

definition handle ::
  "('p \<Rightarrow> 'u canonical_billing_event option) \<Rightarrow> 'p \<Rightarrow> ('u, 'e, 'w) callback_set \<Rightarrow> 'w
     \<Rightarrow> ('u, 'e, 'w) dispatch_run"
where
  "handle classify verifiedPayload callbacks w =
     (case classify verifiedPayload of
        None \<Rightarrow>
          \<lparr>result = Inr (), world = w,
           visited = [Normalizing, Dispatching, Completed], invoked = []\<rparr>
      | Some event \<Rightarrow>
          (case invoke callbacks event w of
             (settled, w') \<Rightarrow>
               \<lparr>result = settled, world = w',
                visited = [Normalizing, Dispatching,
                           (case settled of Inl e \<Rightarrow> CallbackFailed | Inr u \<Rightarrow> Completed)],
                invoked = [call_of event]\<rparr>))"

text \<open>
  Modelled from the spec: the missing Webhook Dispatcher, for a strategy that is already
  resolved. It verifies the raw request with the strategy's verifier (the contract
  \<^verbatim>\<open>verify(rawRequest) -> verifiedPayload\<close>, the argument \<open>verify\<close>); a verification
  failure ends the run in the state Rejected, and only a verified payload is handed to
  \<open>handle\<close>.
\<close>

definition dispatch ::
  "('req \<Rightarrow> 'e + 'p) \<Rightarrow> ('p \<Rightarrow> 'u canonical_billing_event option) \<Rightarrow> 'req
     \<Rightarrow> ('u, 'e, 'w) callback_set \<Rightarrow> 'w \<Rightarrow> ('u, 'e, 'w) dispatch_run"
where
  "dispatch verify classify rawRequest callbacks w =
     (case verify rawRequest of
        Inl e \<Rightarrow>
          \<lparr>result = Inl e, world = w,
           visited = [Received, Verifying, Rejected], invoked = []\<rparr>
      | Inr verifiedPayload \<Rightarrow>
          (let run = handle classify verifiedPayload callbacks w
           in run\<lparr>visited := [Received, Verifying, Verified] @ visited run\<rparr>))"

section \<open>Properties of the provider strategy factory\<close>

text \<open>
  Claim C1. For every provider identifier outside the known set
  \<open>{stripe, lemon-squeezy, paddle}\<close>, \<open>GetProviderStrategy\<close> fails: it throws the error of
  its \<^verbatim>\<open>default\<close> branch, whose message reports the unsupported billing provider by
  name, and it has no effect at all: no provider module is imported and no handler is
  constructed, so no verifier or normalizer exists that could be invoked.
\<close>

theorem GetProviderStrategy_unsupported:
  assumes "provider \<notin> {''stripe'', ''lemon-squeezy'', ''paddle''}"
  shows "GetProviderStrategy stripe lemon provider =
           (Inl (JsError (''Unsupported billing provider: '' @ provider)), [])"
  using assms by (simp add: GetProviderStrategy_def)

theorem GetProviderStrategy_unsupported_witness:
  "''chargebee'' \<notin> {''stripe'', ''lemon-squeezy'', ''paddle''} \<and>
   GetProviderStrategy ''stripe handler'' ''lemon handler'' ''chargebee'' =
     (Inl (JsError ''Unsupported billing provider: chargebee''), [])"
proof -
  have out: "''chargebee'' \<notin> {''stripe'', ''lemon-squeezy'', ''paddle''}"
    by simp
  from GetProviderStrategy_unsupported [OF out, of "''stripe handler''" "''lemon handler''"] out
  show ?thesis
    by simp
qed

text \<open>
  Claim C2. Called with \<open>paddle\<close>, \<open>GetProviderStrategy\<close> throws its not-supported-yet
  error at once: the effect list is empty, so nothing was imported or constructed before
  the throw. The error is a different one from the error of the \<^verbatim>\<open>default\<close> branch.
\<close>

theorem GetProviderStrategy_paddle:
  "GetProviderStrategy stripe lemon ''paddle'' =
     (Inl (JsError ''Paddle is not supported yet''), []) \<and>
   fst (GetProviderStrategy stripe lemon ''paddle'') \<noteq>
     Inl (JsError (''Unsupported billing provider: '' @ ''paddle''))"
  by (simp add: GetProviderStrategy_def)

text \<open>
  Claim C3. For \<open>stripe\<close> and for \<open>lemon-squeezy\<close>, \<open>GetProviderStrategy\<close> returns
  without error the instance of that provider's webhook handler service, which by its type
  is a verifier together with an event handler. It imports that provider's module only:
  the other provider's module is never imported and its class is never instantiated.
\<close>

theorem GetProviderStrategy_supported:
  fixes stripe lemon :: "('req, 'p, 'u, 'e, 'w) BillingWebhookHandlerService"
  shows
  "GetProviderStrategy stripe lemon ''stripe'' =
     (Inr stripe, [Import ''@kit/stripe'', New ''StripeWebhookHandlerService'']) \<and>
   GetProviderStrategy stripe lemon ''lemon-squeezy'' =
     (Inr lemon, [Import ''@kit/lemon-squeezy'', New ''LemonSqueezyWebhookHandlerService'']) \<and>
   Import ''@kit/lemon-squeezy'' \<notin> set (snd (GetProviderStrategy stripe lemon ''stripe'')) \<and>
   New ''LemonSqueezyWebhookHandlerService''
     \<notin> set (snd (GetProviderStrategy stripe lemon ''stripe'')) \<and>
   Import ''@kit/stripe'' \<notin> set (snd (GetProviderStrategy stripe lemon ''lemon-squeezy'')) \<and>
   New ''StripeWebhookHandlerService''
     \<notin> set (snd (GetProviderStrategy stripe lemon ''lemon-squeezy''))"
  by (simp add: GetProviderStrategy_def)

section \<open>Properties of the configured-provider lookup\<close>

text \<open>
  A query error is rethrown as it is, and whatever \<open>getBillingProvider\<close> throws leaves
  \<open>getBillingGatewayProvider\<close> before the gateway factory is called.
\<close>

lemma getBillingProvider_query_error:
  "error response = Some q \<Longrightarrow> getBillingProvider response = Inl (JsPostgrestError q)"
  by (simp add: getBillingProvider_def thrown_error_def)

lemma getBillingGatewayProvider_failure:
  "getBillingProvider response = Inl e \<Longrightarrow>
   getBillingGatewayProvider createBillingGatewayService response = (Inl e, [])"
  by (simp add: getBillingGatewayProvider_def)

lemma getBillingGatewayProvider_success:
  "getBillingProvider response = Inr provider \<Longrightarrow>
   getBillingGatewayProvider createBillingGatewayService response =
     (Inr (createBillingGatewayService provider), [Call ''createBillingGatewayService'' [provider]])"
  by (simp add: getBillingGatewayProvider_def)

lemma getBillingProvider_returns:
  "getBillingProvider response = Inr provider \<longleftrightarrow>
   error response = None \<and> provider \<noteq> [] \<and>
   (\<exists>row. data response = Some row \<and> billing_provider row = Some provider)"
  by (auto simp: getBillingProvider_def js_not_def split: option.splits)

text \<open>
  Claim C4. The claim is that a lookup whose configuration row has no billing provider
  fails with a configuration error before any strategy is resolved. At the response
  \<^verbatim>\<open>{ data: { billing_provider: null }, error: null }\<close> the program does stop before the
  gateway factory is called, but what it throws is the value \<^verbatim>\<open>null\<close>, not an error.
\<close>

theorem getBillingGatewayProvider_null_provider:
  "getBillingGatewayProvider createBillingGatewayService
     \<lparr>data = Some \<lparr>billing_provider = None\<rparr>, error = None\<rparr> = (Inl JsNull, [])"
  by (simp add: getBillingGatewayProvider_def getBillingProvider_def js_not_def
      thrown_error_def)

text \<open>
  Claim C10. When the query reports no error but the row's \<open>billing_provider\<close> is null or
  the empty string, \<open>getBillingProvider\<close> throws the query's error value itself, and that
  value is null: the thrown value is neither an \<^verbatim>\<open>Error\<close> with a message nor a query
  error object.
\<close>

theorem getBillingProvider_throws_null:
  assumes "error response = None"
    and "data response = Some row"
    and "billing_provider row = None \<or> billing_provider row = Some []"
  shows "getBillingProvider response = Inl (thrown_error (error response)) \<and>
         thrown_error (error response) = JsNull \<and>
         (\<forall>m. getBillingProvider response \<noteq> Inl (JsError m)) \<and>
         (\<forall>m. getBillingProvider response \<noteq> Inl (JsTypeError m)) \<and>
         (\<forall>q. getBillingProvider response \<noteq> Inl (JsPostgrestError q))"
proof -
  from assms(3) have falsy: "js_not (billing_provider row)"
    by (auto simp: js_not_def)
  from assms(1) have null: "thrown_error (error response) = JsNull"
    by (simp add: thrown_error_def)
  from assms(1,2) falsy have "getBillingProvider response = Inl (thrown_error (error response))"
    by (simp add: getBillingProvider_def)
  with null show ?thesis
    by simp
qed

theorem getBillingProvider_throws_null_witness:
  "error \<lparr>data = Some \<lparr>billing_provider = Some []\<rparr>, error = None\<rparr> = None \<and>
   data \<lparr>data = Some \<lparr>billing_provider = Some []\<rparr>, error = None\<rparr>
     = Some \<lparr>billing_provider = Some []\<rparr> \<and>
   billing_provider \<lparr>billing_provider = Some []\<rparr> = Some [] \<and>
   getBillingProvider \<lparr>data = Some \<lparr>billing_provider = Some []\<rparr>, error = None\<rparr>
     = Inl JsNull"
proof -
  let ?row = "\<lparr>billing_provider = Some []\<rparr>"
  let ?response = "\<lparr>data = Some ?row, error = None\<rparr>"
  have e: "error ?response = None" by simp
  have d: "data ?response = Some ?row" by simp
  have b: "billing_provider ?row = None \<or> billing_provider ?row = Some []" by simp
  from getBillingProvider_throws_null [OF e d b] show ?thesis
    by simp
qed

section \<open>Properties of the database webhook verifier\<close>

text \<open>
  Claim C5. With the environment value \<^verbatim>\<open>WEBHOOK_SENDER_PROVIDER\<close> unset,
  \<open>getDatabaseWebhookVerifier\<close> returns the built-in postgres verifier, loading its
  module. With the value set to anything other than \<open>postgres\<close> it returns no verifier
  and loads nothing: it throws an error whose message names the invalid value.
\<close>

theorem getDatabaseWebhookVerifier_selector:
  "getDatabaseWebhookVerifier postgres None =
     (Inr postgres,
      [Import ''./postgres-database-webhook-verifier.service'',
       New ''PostgresDatabaseWebhookVerifierService'']) \<and>
   (\<forall>v. v \<noteq> ''postgres'' \<longrightarrow>
      getDatabaseWebhookVerifier postgres (Some v) =
        (Inl (JsError (''Invalid WEBHOOK_SENDER_PROVIDER: '' @ v)), []))"
  by (simp add: getDatabaseWebhookVerifier_def WEBHOOK_SENDER_PROVIDER_def)

theorem getDatabaseWebhookVerifier_selector_witness:
  "''mysql'' \<noteq> ''postgres'' \<and>
   getDatabaseWebhookVerifier ''postgres verifier'' (Some ''mysql'') =
     (Inl (JsError ''Invalid WEBHOOK_SENDER_PROVIDER: mysql''), []) \<and>
   getDatabaseWebhookVerifier ''postgres verifier'' None =
     (Inr ''postgres verifier'',
      [Import ''./postgres-database-webhook-verifier.service'',
       New ''PostgresDatabaseWebhookVerifierService''])"
proof -
  have other: "''mysql'' \<noteq> ''postgres''" by simp
  note sel = getDatabaseWebhookVerifier_selector [of "''postgres verifier''"]
  from sel have unset: "getDatabaseWebhookVerifier ''postgres verifier'' None =
     (Inr ''postgres verifier'',
      [Import ''./postgres-database-webhook-verifier.service'',
       New ''PostgresDatabaseWebhookVerifierService''])"
    by (rule conjunct1)
  from sel have "\<forall>v. v \<noteq> ''postgres'' \<longrightarrow>
      getDatabaseWebhookVerifier ''postgres verifier'' (Some v) =
        (Inl (JsError (''Invalid WEBHOOK_SENDER_PROVIDER: '' @ v)), [])"
    by (rule conjunct2)
  then have "''mysql'' \<noteq> ''postgres'' \<longrightarrow>
      getDatabaseWebhookVerifier ''postgres verifier'' (Some ''mysql'') =
        (Inl (JsError (''Invalid WEBHOOK_SENDER_PROVIDER: '' @ ''mysql'')), [])"
    by (rule spec)
  from this other
  have "getDatabaseWebhookVerifier ''postgres verifier'' (Some ''mysql'') =
        (Inl (JsError (''Invalid WEBHOOK_SENDER_PROVIDER: '' @ ''mysql'')), [])"
    by (rule mp)
  with other unset show ?thesis
    by simp
qed

section \<open>Properties of the webhook dispatcher\<close>

text \<open>
  Claim C6. If signature verification of a webhook envelope fails, the whole dispatch
  stops there: the run ends in the state Rejected with the verifier's error and the
  persistence untouched, it never reaches the states Normalizing or Dispatching (so no
  canonical billing event is built from the unverified envelope), and it invokes no
  callback, whatever the classifier and the callback set are.
\<close>

theorem dispatch_rejected:
  assumes "verify rawRequest = Inl e"
  shows "dispatch verify classify rawRequest callbacks w =
           \<lparr>result = Inl e, world = w,
            visited = [Received, Verifying, Rejected], invoked = []\<rparr> \<and>
         Normalizing \<notin> set (visited (dispatch verify classify rawRequest callbacks w)) \<and>
         Dispatching \<notin> set (visited (dispatch verify classify rawRequest callbacks w))"
  using assms by (simp add: dispatch_def)

theorem dispatch_rejected_witness:
  "(\<lambda>r. if r = ''body;sig'' then Inr ''body'' else Inl (JsError ''invalid signature''))
     ''body;sih'' = Inl (JsError ''invalid signature'') \<and>
   dispatch
     (\<lambda>r. if r = ''body;sig'' then Inr ''body'' else Inl (JsError ''invalid signature''))
     (\<lambda>p. Some (PaymentSucceeded p))
     ''body;sih''
     \<lparr>onCheckoutSessionCompleted = (\<lambda>(s::string) c w. (Inr (), Suc w)),
      onSubscriptionUpdated = (\<lambda>s c w. (Inr (), Suc w)),
      onSubscriptionDeleted = (\<lambda>i w. (Inr (), Suc w)),
      onPaymentSucceeded = (\<lambda>i w. (Inr (), Suc w)),
      onPaymentFailed = (\<lambda>i w. (Inr (), Suc w))\<rparr>
     (0::nat)
   = \<lparr>result = Inl (JsError ''invalid signature''), world = 0,
      visited = [Received, Verifying, Rejected], invoked = []\<rparr>"
proof -
  let ?verify = "\<lambda>r. if r = ''body;sig'' then Inr ''body''
                      else Inl (JsError ''invalid signature'')"
  have bad: "?verify ''body;sih'' = Inl (JsError ''invalid signature'')"
    by simp
  from dispatch_rejected [of ?verify, OF bad]
  have run: "dispatch ?verify (\<lambda>p. Some (PaymentSucceeded p)) ''body;sih''
     \<lparr>onCheckoutSessionCompleted = (\<lambda>(s::string) c w. (Inr (), Suc w)),
      onSubscriptionUpdated = (\<lambda>s c w. (Inr (), Suc w)),
      onSubscriptionDeleted = (\<lambda>i w. (Inr (), Suc w)),
      onPaymentSucceeded = (\<lambda>i w. (Inr (), Suc w)),
      onPaymentFailed = (\<lambda>i w. (Inr (), Suc w))\<rparr>
     (0::nat)
   = \<lparr>result = Inl (JsError ''invalid signature''), world = 0,
      visited = [Received, Verifying, Rejected], invoked = []\<rparr>"
    by (rule conjunct1)
  from bad run show ?thesis
    by (rule conjI)
qed

text \<open>
  Claim C7. For every verified payload that is classified as checkout completed, the
  handler invokes \<open>onCheckoutSessionCompleted\<close> exactly once, with the event's
  (subscription-or-order, customerId) pair, and invokes no other callback: the list of
  invocations is that single call, and the outcome and the persistence are those of that
  one call. The same holds for the dispatcher run as a whole.
\<close>

theorem handle_checkout_completed:
  assumes "verify rawRequest = Inr verifiedPayload"
    and "classify verifiedPayload = Some (CheckoutCompleted subscriptionOrOrder customerId)"
  shows "invoked (handle classify verifiedPayload callbacks w) =
           [OnCheckoutSessionCompleted subscriptionOrOrder customerId] \<and>
         result (handle classify verifiedPayload callbacks w) =
           fst (onCheckoutSessionCompleted callbacks subscriptionOrOrder customerId w) \<and>
         world (handle classify verifiedPayload callbacks w) =
           snd (onCheckoutSessionCompleted callbacks subscriptionOrOrder customerId w) \<and>
         invoked (dispatch verify classify rawRequest callbacks w) =
           [OnCheckoutSessionCompleted subscriptionOrOrder customerId]"
  using assms by (simp add: dispatch_def handle_def Let_def split: prod.splits)

theorem handle_checkout_completed_witness:
  "(\<lambda>r. if r = ''checkout.session.completed;sig'' then Inr ''checkout.session.completed''
        else Inl (JsError ''invalid signature''))
     ''checkout.session.completed;sig'' = Inr ''checkout.session.completed'' \<and>
   (\<lambda>p. if p = ''checkout.session.completed'' then Some (CheckoutCompleted ''sub_1'' ''cus_1'')
        else None)
     ''checkout.session.completed'' = Some (CheckoutCompleted ''sub_1'' ''cus_1'') \<and>
   handle
     (\<lambda>p. if p = ''checkout.session.completed'' then Some (CheckoutCompleted ''sub_1'' ''cus_1'')
          else None)
     ''checkout.session.completed''
     \<lparr>onCheckoutSessionCompleted = (\<lambda>s c w. (Inr (), w @ [s @ c])),
      onSubscriptionUpdated = (\<lambda>s c w. (Inl (JsError ''not expected''), w)),
      onSubscriptionDeleted = (\<lambda>i w. (Inl (JsError ''not expected''), w)),
      onPaymentSucceeded = (\<lambda>i w. (Inl (JsError ''not expected''), w)),
      onPaymentFailed = (\<lambda>i w. (Inl (JsError ''not expected''), w))\<rparr>
     []
   = \<lparr>result = Inr (), world = [''sub_1cus_1''],
      visited = [Normalizing, Dispatching, Completed],
      invoked = [OnCheckoutSessionCompleted ''sub_1'' ''cus_1'']\<rparr>"
proof -
  let ?verify = "\<lambda>r. if r = ''checkout.session.completed;sig''
                      then Inr ''checkout.session.completed''
                      else Inl (JsError ''invalid signature'')"
  let ?classify = "\<lambda>p. if p = ''checkout.session.completed''
                        then Some (CheckoutCompleted ''sub_1'' ''cus_1'') else None"
  let ?callbacks = "\<lparr>onCheckoutSessionCompleted = (\<lambda>s c w. (Inr (), w @ [s @ c])),
      onSubscriptionUpdated = (\<lambda>s c w. (Inl (JsError ''not expected''), w)),
      onSubscriptionDeleted = (\<lambda>i w. (Inl (JsError ''not expected''), w)),
      onPaymentSucceeded = (\<lambda>i w. (Inl (JsError ''not expected''), w)),
      onPaymentFailed = (\<lambda>i w. (Inl (JsError ''not expected''), w))\<rparr>"
  let ?run = "handle ?classify ''checkout.session.completed'' ?callbacks []"
  have v: "?verify ''checkout.session.completed;sig'' = Inr ''checkout.session.completed''"
    by simp
  have c: "?classify ''checkout.session.completed'' = Some (CheckoutCompleted ''sub_1'' ''cus_1'')"
    by simp
  note once = handle_checkout_completed [of ?verify _ _ ?classify, OF v c, of ?callbacks "[]"]
  from once have i: "invoked ?run = [OnCheckoutSessionCompleted ''sub_1'' ''cus_1'']"
    by (rule conjunct1)
  from once have r: "result ?run = Inr ()"
    by simp
  from once have w: "world ?run = [''sub_1cus_1'']"
    by simp
  have "visited ?run = [Normalizing, Dispatching, Completed]"
    by (simp add: handle_def)
  with i r w have "?run = \<lparr>result = Inr (), world = [''sub_1cus_1''],
      visited = [Normalizing, Dispatching, Completed],
      invoked = [OnCheckoutSessionCompleted ''sub_1'' ''cus_1'']\<rparr>"
    by simp
  with v c show ?thesis
    by simp
qed

text \<open>
  Claim C8. For every payload that passes signature verification but whose event type
  is not recognized, the handler invokes no callback and completes without an error, and
  the persistence is unchanged.
\<close>

theorem handle_unrecognized:
  assumes "verify rawRequest = Inr verifiedPayload"
    and "classify verifiedPayload = None"
  shows "handle classify verifiedPayload callbacks w =
           \<lparr>result = Inr (), world = w,
            visited = [Normalizing, Dispatching, Completed], invoked = []\<rparr> \<and>
         dispatch verify classify rawRequest callbacks w =
           \<lparr>result = Inr (), world = w,
            visited = [Received, Verifying, Verified, Normalizing, Dispatching, Completed],
            invoked = []\<rparr>"
  using assms by (simp add: dispatch_def handle_def Let_def)

theorem handle_unrecognized_witness:
  "(\<lambda>r. if r = ''customer.created;sig'' then Inr ''customer.created''
        else Inl (JsError ''invalid signature''))
     ''customer.created;sig'' = Inr ''customer.created'' \<and>
   (\<lambda>p. if p = ''checkout.session.completed'' then Some (CheckoutCompleted ''sub_1'' ''cus_1'')
        else None)
     ''customer.created'' = None \<and>
   dispatch
     (\<lambda>r. if r = ''customer.created;sig'' then Inr ''customer.created''
          else Inl (JsError ''invalid signature''))
     (\<lambda>p. if p = ''checkout.session.completed'' then Some (CheckoutCompleted ''sub_1'' ''cus_1'')
          else None)
     ''customer.created;sig''
     \<lparr>onCheckoutSessionCompleted = (\<lambda>s c w. (Inr (), Suc w)),
      onSubscriptionUpdated = (\<lambda>s c w. (Inr (), Suc w)),
      onSubscriptionDeleted = (\<lambda>i w. (Inr (), Suc w)),
      onPaymentSucceeded = (\<lambda>i w. (Inr (), Suc w)),
      onPaymentFailed = (\<lambda>i w. (Inr (), Suc w))\<rparr>
     (0::nat)
   = \<lparr>result = Inr (), world = 0,
      visited = [Received, Verifying, Verified, Normalizing, Dispatching, Completed],
      invoked = []\<rparr>"
proof -
  let ?verify = "\<lambda>r. if r = ''customer.created;sig'' then Inr ''customer.created''
                      else Inl (JsError ''invalid signature'')"
  let ?classify = "\<lambda>p. if p = ''checkout.session.completed''
                        then Some (CheckoutCompleted ''sub_1'' ''cus_1'') else None"
  have v: "?verify ''customer.created;sig'' = Inr ''customer.created''"
    by simp
  have c: "?classify ''customer.created'' = None"
    by simp
  from handle_unrecognized [of ?verify _ _ ?classify, OF v c]
  have run: "dispatch ?verify ?classify ''customer.created;sig''
     \<lparr>onCheckoutSessionCompleted = (\<lambda>s c w. (Inr (), Suc w)),
      onSubscriptionUpdated = (\<lambda>s c w. (Inr (), Suc w)),
      onSubscriptionDeleted = (\<lambda>i w. (Inr (), Suc w)),
      onPaymentSucceeded = (\<lambda>i w. (Inr (), Suc w)),
      onPaymentFailed = (\<lambda>i w. (Inr (), Suc w))\<rparr>
     (0::nat)
   = \<lparr>result = Inr (), world = 0,
      visited = [Received, Verifying, Verified, Normalizing, Dispatching, Completed],
      invoked = []\<rparr>"
    by (rule conjunct2)
  from v c run show ?thesis
    by (intro conjI)
qed

text \<open>
  Claim C9. Whichever callback the event selects, if that callback rejects with a value
  \<open>e\<close>, the promise returned by the handler rejects with the same \<open>e\<close>: it is
  neither wrapped nor replaced nor swallowed, and the run ends in the state
  CallbackFailed.
\<close>

theorem handle_callback_rejects:
  assumes "classify verifiedPayload = Some event"
    and "fst (invoke callbacks event w) = Inl e"
  shows "result (handle classify verifiedPayload callbacks w) = Inl e \<and>
         invoked (handle classify verifiedPayload callbacks w) = [call_of event] \<and>
         last (visited (handle classify verifiedPayload callbacks w)) = CallbackFailed"
  using assms by (cases "invoke callbacks event w") (simp add: handle_def)

theorem handle_callback_rejects_witness:
  "(let callbacks =
       \<lparr>onCheckoutSessionCompleted = (\<lambda>s c w. (Inl (JsError (''upsert failed: '' @ s)), w)),
        onSubscriptionUpdated =
          (\<lambda>s c w. (Inl (JsPostgrestError
                 \<lparr>message = ''conflict'', details = s, hint = c, code = ''23505''\<rparr>), w)),
        onSubscriptionDeleted = (\<lambda>i w. (Inl JsNull, w)),
        onPaymentSucceeded = (\<lambda>i w. (Inl (JsTypeError i), Suc w)),
        onPaymentFailed = (\<lambda>i w. (Inl (JsError i), w))\<rparr>
    in
    (fst (invoke callbacks (CheckoutCompleted ''sub_1'' ''cus_1'') (0::nat)) = Inl (JsError ''upsert failed: sub_1'') \<and>
     result (handle (\<lambda>p. Some (CheckoutCompleted ''sub_1'' ''cus_1'')) ''payload'' callbacks 0) =
       Inl (JsError ''upsert failed: sub_1'')) \<and>
    (fst (invoke callbacks (SubscriptionUpdated ''sub_1'' ''cus_1'') (0::nat)) = Inl (JsPostgrestError
         \<lparr>message = ''conflict'', details = ''sub_1'', hint = ''cus_1'', code = ''23505''\<rparr>) \<and>
     result (handle (\<lambda>p. Some (SubscriptionUpdated ''sub_1'' ''cus_1'')) ''payload'' callbacks 0) =
       Inl (JsPostgrestError
         \<lparr>message = ''conflict'', details = ''sub_1'', hint = ''cus_1'', code = ''23505''\<rparr>)) \<and>
    (fst (invoke callbacks (SubscriptionDeleted ''sub_1'') (0::nat)) = Inl (JsNull) \<and>
     result (handle (\<lambda>p. Some (SubscriptionDeleted ''sub_1'')) ''payload'' callbacks 0) =
       Inl (JsNull)) \<and>
    (fst (invoke callbacks (PaymentSucceeded ''cs_1'') (0::nat)) = Inl (JsTypeError ''cs_1'') \<and>
     result (handle (\<lambda>p. Some (PaymentSucceeded ''cs_1'')) ''payload'' callbacks 0) =
       Inl (JsTypeError ''cs_1'')) \<and>
    (fst (invoke callbacks (PaymentFailed ''cs_1'') (0::nat)) = Inl (JsError ''cs_1'') \<and>
     result (handle (\<lambda>p. Some (PaymentFailed ''cs_1'')) ''payload'' callbacks 0) =
       Inl (JsError ''cs_1'')))"
proof -
  let ?callbacks = "\<lparr>onCheckoutSessionCompleted = (\<lambda>s c w. (Inl (JsError (''upsert failed: '' @ s)), w)),
        onSubscriptionUpdated =
          (\<lambda>s c w. (Inl (JsPostgrestError
                 \<lparr>message = ''conflict'', details = s, hint = c, code = ''23505''\<rparr>), w)),
        onSubscriptionDeleted = (\<lambda>i w. (Inl JsNull, w)),
        onPaymentSucceeded = (\<lambda>i w. (Inl (JsTypeError i), Suc w)),
        onPaymentFailed = (\<lambda>i w. (Inl (JsError i), w))\<rparr>"
  have c0: "(\<lambda>p::string. Some (CheckoutCompleted ''sub_1'' ''cus_1'')) ''payload'' = Some (CheckoutCompleted ''sub_1'' ''cus_1'')"
    by simp
  have r0: "fst (invoke ?callbacks (CheckoutCompleted ''sub_1'' ''cus_1'') (0::nat)) = Inl (JsError ''upsert failed: sub_1'')"
    by simp
  from handle_callback_rejects [of "\<lambda>p. Some (CheckoutCompleted ''sub_1'' ''cus_1'')" "''payload''", OF c0 r0]
  have h0: "result (handle (\<lambda>p. Some (CheckoutCompleted ''sub_1'' ''cus_1'')) ''payload'' ?callbacks 0) =
       Inl (JsError ''upsert failed: sub_1'')"
    by (rule conjunct1)
  have c1: "(\<lambda>p::string. Some (SubscriptionUpdated ''sub_1'' ''cus_1'')) ''payload'' = Some (SubscriptionUpdated ''sub_1'' ''cus_1'')"
    by simp
  have r1: "fst (invoke ?callbacks (SubscriptionUpdated ''sub_1'' ''cus_1'') (0::nat)) = Inl (JsPostgrestError
         \<lparr>message = ''conflict'', details = ''sub_1'', hint = ''cus_1'', code = ''23505''\<rparr>)"
    by simp
  from handle_callback_rejects [of "\<lambda>p. Some (SubscriptionUpdated ''sub_1'' ''cus_1'')" "''payload''", OF c1 r1]
  have h1: "result (handle (\<lambda>p. Some (SubscriptionUpdated ''sub_1'' ''cus_1'')) ''payload'' ?callbacks 0) =
       Inl (JsPostgrestError
         \<lparr>message = ''conflict'', details = ''sub_1'', hint = ''cus_1'', code = ''23505''\<rparr>)"
    by (rule conjunct1)
  have c2: "(\<lambda>p::string. Some (SubscriptionDeleted ''sub_1'')) ''payload'' = Some (SubscriptionDeleted ''sub_1'')"
    by simp
  have r2: "fst (invoke ?callbacks (SubscriptionDeleted ''sub_1'') (0::nat)) = Inl (JsNull)"
    by simp
  from handle_callback_rejects [of "\<lambda>p. Some (SubscriptionDeleted ''sub_1'')" "''payload''", OF c2 r2]
  have h2: "result (handle (\<lambda>p. Some (SubscriptionDeleted ''sub_1'')) ''payload'' ?callbacks 0) =
       Inl (JsNull)"
    by (rule conjunct1)
  have c3: "(\<lambda>p::string. Some (PaymentSucceeded ''cs_1'')) ''payload'' = Some (PaymentSucceeded ''cs_1'')"
    by simp
  have r3: "fst (invoke ?callbacks (PaymentSucceeded ''cs_1'') (0::nat)) = Inl (JsTypeError ''cs_1'')"
    by simp
  from handle_callback_rejects [of "\<lambda>p. Some (PaymentSucceeded ''cs_1'')" "''payload''", OF c3 r3]
  have h3: "result (handle (\<lambda>p. Some (PaymentSucceeded ''cs_1'')) ''payload'' ?callbacks 0) =
       Inl (JsTypeError ''cs_1'')"
    by (rule conjunct1)
  have c4: "(\<lambda>p::string. Some (PaymentFailed ''cs_1'')) ''payload'' = Some (PaymentFailed ''cs_1'')"
    by simp
  have r4: "fst (invoke ?callbacks (PaymentFailed ''cs_1'') (0::nat)) = Inl (JsError ''cs_1'')"
    by simp
  from handle_callback_rejects [of "\<lambda>p. Some (PaymentFailed ''cs_1'')" "''payload''", OF c4 r4]
  have h4: "result (handle (\<lambda>p. Some (PaymentFailed ''cs_1'')) ''payload'' ?callbacks 0) =
       Inl (JsError ''cs_1'')"
    by (rule conjunct1)
  from r0 h0 r1 h1 r2 h2 r3 h3 r4 h4 show ?thesis
    unfolding Let_def by (intro conjI)
qed

end
